theory Spec2Isabelle
  imports Complex_Main
begin

section \<open>Chart composition of irfsim/trade-analytics\<close>

text \<open>
  The repository holds two implementations of \<^verbatim>\<open>generate_chart\<close>:
  \<^verbatim>\<open>scripts/chart-server.py\<close> (timezone reconciliation, horizontal jitter,
  candle-relative marker heights, widened vertical range, interval titles) and
  \<^verbatim>\<open>api/chart-image/index.py\<close>. Both are embedded here, the first as
  \<open>generate_chart\<close>, the second as \<open>generate_chart_index\<close>.

  Python floats are idealised as \<open>real\<close>: rounding, infinities and NaN are outside the
  model. Timestamps and datetimes are integers counting seconds.
\<close>

subsection \<open>Errors and JSON values\<close>

datatype error =
  ValueError string | TypeError string | KeyError string | AttributeError string

text \<open>
  The legs come out of \<^verbatim>\<open>json.loads\<close>, so a leg and each of its fields is any JSON
  value. An object is given by its items (each key once).
\<close>

datatype json =
  JNull | JBool bool | JNum real | JStr string | JArray "json list"
  | JObject "(string \<times> json) list"

text \<open>Python lists and dicts are unhashable: they cannot be keys of a dict lookup.\<close>

fun hashable :: "json \<Rightarrow> bool" where
  "hashable (JArray xs) = False"
| "hashable (JObject kvs) = False"
| "hashable v = True"

text \<open>
  \<^verbatim>\<open>leg.get(k, default)\<close>: only a dict has \<^verbatim>\<open>get\<close>; \<^verbatim>\<open>leg.get(k)\<close> has the default
  \<^verbatim>\<open>None\<close>, which is \<open>JNull\<close>. \<^verbatim>\<open>leg[k]\<close>: a dict raises \<^verbatim>\<open>KeyError\<close> for a missing key,
  every other JSON value raises \<^verbatim>\<open>TypeError\<close> for a string subscript.
\<close>

fun get :: "json \<Rightarrow> string \<Rightarrow> json \<Rightarrow> error + json" where
  "get (JObject kvs) k dflt = Inr (case map_of kvs k of None \<Rightarrow> dflt | Some v \<Rightarrow> v)"
| "get obj k dflt = Inl (AttributeError ''get'')"

fun getitem :: "json \<Rightarrow> string \<Rightarrow> error + json" where
  "getitem (JObject kvs) k = (case map_of kvs k of None \<Rightarrow> Inl (KeyError k) | Some v \<Rightarrow> Inr v)"
| "getitem obj k = Inl (TypeError ''subscript'')"

subsection \<open>Timestamps and the OHLCV frame\<close>

datatype tzinfo = TzInfo (tzname: string) (utcoffset: "int \<Rightarrow> int")

definition UTC :: tzinfo where
  "UTC = TzInfo ''UTC'' (\<lambda>_. 0)"

text \<open>
  A pandas \<^verbatim>\<open>Timestamp\<close>: \<open>NaT\<close>, a naive wall-clock reading, or an instant (seconds since
  the epoch, in UTC) carrying a timezone.
\<close>

datatype timestamp = NaT | Naive int | Aware int tzinfo

fun tz :: "timestamp \<Rightarrow> tzinfo option" where
  "tz NaT = None"
| "tz (Naive w) = None"
| "tz (Aware i z) = Some z"

text \<open>
  \<^verbatim>\<open>Timestamp.tz_localize(tz)\<close>: with \<^verbatim>\<open>None\<close> it drops the zone and keeps the local
  wall clock; with a zone it attaches the zone to a naive reading and refuses an aware one.
  \<^verbatim>\<open>Timestamp.tz_convert(tz)\<close> keeps the instant and changes the zone, and refuses a naive
  reading. Both leave \<^verbatim>\<open>NaT\<close> alone.
\<close>

fun tz_localize :: "tzinfo option \<Rightarrow> timestamp \<Rightarrow> error + timestamp" where
  "tz_localize z NaT = Inr NaT"
| "tz_localize None (Naive w) = Inr (Naive w)"
| "tz_localize None (Aware i z) = Inr (Naive (i + utcoffset z i))"
| "tz_localize (Some z) (Naive w) = Inr (Aware (w - utcoffset z w) z)"
| "tz_localize (Some z') (Aware i z) =
     Inl (TypeError ''Cannot localize tz-aware Timestamp, use tz_convert for conversions'')"

fun tz_convert :: "tzinfo \<Rightarrow> timestamp \<Rightarrow> error + timestamp" where
  "tz_convert z NaT = Inr NaT"
| "tz_convert z (Naive w) =
     Inl (TypeError ''Cannot convert tz-naive Timestamp, use tz_localize to localize'')"
| "tz_convert z (Aware i z') = Inr (Aware i z)"

record candle =
  stamp :: int
  Open :: real
  High :: real
  Low :: real
  Close :: real
  Volume :: real

text \<open>
  The data frame: the timezone of its index (\<^verbatim>\<open>data.index.tz\<close>) and its rows, each with
  the index entry \<open>stamp\<close> (an instant when the index is aware, a wall clock otherwise).
\<close>

record dataframe =
  index_tz :: "tzinfo option"
  rows :: "candle list"

definition empty :: "dataframe \<Rightarrow> bool" where
  "empty data = (rows data = [])"

text \<open>
  \<^verbatim>\<open>data['High'].max()\<close> and \<^verbatim>\<open>data['Low'].min()\<close>; both are read on a frame with at
  least one row only.
\<close>

definition High_max :: "dataframe \<Rightarrow> real" where
  "High_max data = Max (set (map High (rows data)))"

definition Low_min :: "dataframe \<Rightarrow> real" where
  "Low_min data = Min (set (map Low (rows data)))"

subsection \<open>The libraries behind the code\<close>

text \<open>
  pandas, mplfinance, datetime and yfinance are not code of the repository; what the code
  asks of them is taken as parameters. \<open>pd_Timestamp\<close> is the constructor
  \<^verbatim>\<open>pd.Timestamp(v)\<close>, which parses or raises; \<open>get_indexer\<close> is
  \<^verbatim>\<open>data.index.get_indexer([t], method='nearest')[0]\<close>, which returns a position or raises;
  \<open>mpf_plot\<close> gives the vertical range the rendering engine chose for the price pane
  (\<^verbatim>\<open>ax_price.get_ylim()\<close> of the base chart), and drawing on a figure is taken not to
  fail; \<open>fromisoformat\<close>, \<open>now\<close> and \<open>strftime\<close> are \<^verbatim>\<open>datetime.fromisoformat\<close>,
  \<^verbatim>\<open>datetime.now()\<close> and \<^verbatim>\<open>strftime('%Y-%m-%d')\<close>; \<open>yf_download\<close> is \<^verbatim>\<open>yf.download\<close>
  (ticker, start, end, interval).
\<close>

record libs =
  pd_Timestamp :: "json \<Rightarrow> error + timestamp"
  get_indexer :: "dataframe \<Rightarrow> timestamp \<Rightarrow> error + int"
  mpf_plot :: "dataframe \<Rightarrow> real \<times> real"
  fromisoformat :: "string \<Rightarrow> error + int"
  now :: int
  strftime :: "int \<Rightarrow> string"
  yf_download :: "string \<Rightarrow> string \<Rightarrow> string \<Rightarrow> string \<Rightarrow> dataframe"

text \<open>
  \<^verbatim>\<open>mpf.make_mpf_style(**kwargs)\<close> checks its keyword arguments against the keywords it
  knows and raises \<^verbatim>\<open>KeyError\<close> (\<^verbatim>\<open>Unrecognized kwarg=\<close> and the keyword in double quotes)
  for any other. Only the names of the keywords matter here.
\<close>

definition valid_make_mpf_style_kwargs :: "string list" where
  "valid_make_mpf_style_kwargs =
     [''base_mpf_style'', ''base_mpl_style'', ''marketcolors'', ''mavcolors'', ''facecolor'',
      ''edgecolor'', ''figcolor'', ''gridcolor'', ''gridstyle'', ''gridaxis'', ''y_on_right'',
      ''rc'', ''legacy_rc'', ''style_name'']"

definition make_mpf_style :: "string list \<Rightarrow> error + unit" where
  "make_mpf_style kwargs =
     (case filter (\<lambda>k. k \<notin> set valid_make_mpf_style_kwargs) kwargs of
        [] \<Rightarrow> Inr ()
      | k # _ \<Rightarrow> Inl (KeyError (''Unrecognized kwarg='' @ k)))"

subsection \<open>The figure\<close>

text \<open>
  What the calls on the price axes leave behind: the horizontal lines (\<^verbatim>\<open>axhline\<close>), the
  markers (\<^verbatim>\<open>scatter\<close>), the vertical range and the title; the figure stands for the PNG
  bytes written from it. A label \<^verbatim>\<open>f'Entry ${entry_price:.2f}'\<close> is kept as its prefix and
  the price it formats.
\<close>

datatype line_label = Label string real

datatype axhline = Axhline (line_y: real) (line_color: string) (label: "line_label option")

datatype scatter =
  Scatter (x_pos: real) (y_pos: real) (marker: string) (color: string) (s: nat)
    (edgecolors: string)

record 'm figure =
  hlines :: "axhline list"
  scatters :: "'m list"
  ylim :: "real \<times> real"
  title :: string

subsection \<open>Reference lines (both files)\<close>

text \<open>
  \<^verbatim>\<open>if exit_price:\<close> is false for \<^verbatim>\<open>None\<close> and for \<^verbatim>\<open>0.0\<close>.
  \<^verbatim>\<open>is_profit = (exit_price > entry_price) if direction == 'LONG' else (exit_price < entry_price)\<close>.
\<close>

definition is_profit :: "string \<Rightarrow> real \<Rightarrow> real \<Rightarrow> bool" where
  "is_profit direction entry_price exit_price =
     (if direction = ''LONG'' then exit_price > entry_price else exit_price < entry_price)"

definition exit_line :: "bool \<Rightarrow> real \<Rightarrow> real option \<Rightarrow> string \<Rightarrow> axhline list" where
  "exit_line labelled entry_price exit_price direction =
     (case exit_price of
        None \<Rightarrow> []
      | Some p \<Rightarrow>
          if p = 0 then []
          else [Axhline p
                  (if is_profit direction entry_price p then ''#10b981'' else ''#ef4444'')
                  (if labelled then Some (Label ''Exit $'' p) else None)])"

definition entry_line :: "bool \<Rightarrow> real \<Rightarrow> axhline" where
  "entry_line labelled entry_price =
     Axhline entry_price ''#10b981''
       (if labelled then Some (Label ''Entry $'' entry_price) else None)"

subsection \<open>scripts/chart-server.py\<close>

text \<open>Lines 89-115: the keywords \<^verbatim>\<open>create_custom_style\<close> passes to \<^verbatim>\<open>make_mpf_style\<close>.\<close>

definition create_custom_style :: "error + unit" where
  "create_custom_style =
     make_mpf_style [''base_mpl_style'', ''marketcolors'', ''facecolor'', ''edgecolor'',
       ''figcolor'', ''gridcolor'', ''gridstyle'', ''y_on_right'', ''rc'']"

text \<open>
  Lines 244-257: \<^verbatim>\<open>pd.Timestamp(leg.get('executed_at', ''))\<close>, brought to the timezone of
  the index.
\<close>

definition leg_date :: "libs \<Rightarrow> dataframe \<Rightarrow> json \<Rightarrow> error + timestamp" where
  "leg_date L data lg =
     (case get lg ''executed_at'' (JStr '''') of
        Inl e \<Rightarrow> Inl e
      | Inr leg_date_str \<Rightarrow>
          (case pd_Timestamp L leg_date_str of
             Inl e \<Rightarrow> Inl e
           | Inr t \<Rightarrow>
               (case index_tz data of
                  Some z \<Rightarrow>
                    (case tz t of
                       None \<Rightarrow>
                         (case tz_localize (Some UTC) t of
                            Inl e \<Rightarrow> Inl e
                          | Inr u \<Rightarrow> tz_convert z u)
                     | Some _ \<Rightarrow> tz_convert z t)
                | None \<Rightarrow>
                    (case tz t of
                       Some _ \<Rightarrow> tz_localize None t
                     | None \<Rightarrow> Inr t))))"

text \<open>
  Lines 243-261 and 301-303: the position a leg resolves to; \<open>None\<close> when the \<^verbatim>\<open>try\<close>
  block raised up to there or the position is outside \<^verbatim>\<open>0 <= idx < len(data)\<close>, which is
  when the loop goes on to the next leg with nothing drawn and nothing counted.
\<close>

definition leg_position :: "libs \<Rightarrow> dataframe \<Rightarrow> json \<Rightarrow> int option" where
  "leg_position L data lg =
     (case leg_date L data lg of
        Inl e \<Rightarrow> None
      | Inr t \<Rightarrow>
          (case get_indexer L data t of
             Inl e \<Rightarrow> None
           | Inr idx \<Rightarrow>
               if 0 \<le> idx \<and> idx < int (length (rows data)) then Some idx else None))"

text \<open>Line 264: \<^verbatim>\<open>leg.get('leg_type') in ['ENTRY', 'ADD']\<close>, on the value read.\<close>

definition is_buy :: "json \<Rightarrow> bool" where
  "is_buy t = (t = JStr ''ENTRY'' \<or> t = JStr ''ADD'')"

text \<open>Lines 269-273.\<close>

definition x_offset :: "bool \<Rightarrow> nat \<Rightarrow> real" where
  "x_offset buy marker_count =
     (if buy then - 0.15 + (real marker_count * 0.15) else 0.15 + (real marker_count * 0.15))"

text \<open>
  Lines 283-289: \<^verbatim>\<open>colors.get(leg.get('leg_type'), '#71717a')\<close>; the lookup hashes its
  key and raises \<^verbatim>\<open>TypeError\<close> for a list or a dict.
\<close>

definition colors :: "json \<Rightarrow> error + string" where
  "colors t =
     (if \<not> hashable t then Inl (TypeError ''unhashable type'')
      else if t = JStr ''ENTRY'' then Inr ''#10b981''
      else if t = JStr ''ADD'' then Inr ''#3b82f6''
      else if t = JStr ''TRIM'' then Inr ''#f59e0b''
      else if t = JStr ''EXIT'' then Inr ''#ef4444''
      else Inr ''#71717a'')"

type_synonym used_positions = "int \<Rightarrow> nat option"

definition marker_count_at :: "used_positions \<Rightarrow> int \<Rightarrow> nat" where
  "marker_count_at used idx = (case used idx of None \<Rightarrow> 0 | Some c \<Rightarrow> c)"

text \<open>
  Lines 242-303: one turn of the loop over the legs, on the counters and the markers drawn
  so far. The counter of the position is written (line 274) before the colour is looked up
  (line 289); when the lookup raises, the \<^verbatim>\<open>except\<close> goes on to the next leg with the
  counter written and no marker drawn.
\<close>

definition add_marker ::
  "libs \<Rightarrow> dataframe \<Rightarrow> real \<Rightarrow> json \<Rightarrow> used_positions \<times> scatter list
     \<Rightarrow> used_positions \<times> scatter list"
where
  "add_marker L data marker_offset lg st =
     (case leg_position L data lg of
        None \<Rightarrow> st
      | Some idx \<Rightarrow>
          (case get lg ''leg_type'' JNull of
             Inl e \<Rightarrow> st
           | Inr t \<Rightarrow>
               (let cndl = rows data ! nat idx;
                    buy = is_buy t;
                    mk = (if buy then ''^'' else ''v'');
                    marker_count = marker_count_at (fst st) idx;
                    xo = x_offset buy marker_count;
                    used' = (fst st)(idx \<mapsto> marker_count + 1);
                    xp = real_of_int idx + xo;
                    yp = (if buy then Low cndl - marker_offset else High cndl + marker_offset)
                in case colors t of
                     Inl e \<Rightarrow> (used', snd st)
                   | Inr c \<Rightarrow> (used', snd st @ [Scatter xp yp mk c 150 ''white'']))))"

definition add_markers ::
  "libs \<Rightarrow> dataframe \<Rightarrow> real \<Rightarrow> json list \<Rightarrow> used_positions \<times> scatter list"
where
  "add_markers L data marker_offset legs =
     fold (add_marker L data marker_offset) legs (Map.empty, [])"

text \<open>Lines 305-312.\<close>

definition new_ylim :: "dataframe \<Rightarrow> real \<times> real \<Rightarrow> real \<times> real" where
  "new_ylim data yl =
     (let y_min = fst yl; y_max = snd yl;
          price_range = High_max data - Low_min data;
          data_low = Low_min data;
          data_high = High_max data
      in (min y_min (data_low - price_range * 0.08),
          max y_max (data_high + price_range * 0.08)))"

text \<open>Lines 315-317: \<^verbatim>\<open>interval_labels.get(interval, interval)\<close>.\<close>

definition interval_labels :: "string \<Rightarrow> string" where
  "interval_labels interval =
     (if interval = ''1d'' then ''Daily''
      else if interval = ''1h'' then ''Hourly''
      else if interval = ''5m'' then ''5 Min''
      else interval)"

text \<open>Lines 182-330.\<close>

definition generate_chart ::
  "libs \<Rightarrow> string \<Rightarrow> dataframe \<Rightarrow> json list \<Rightarrow> real \<Rightarrow> real option \<Rightarrow> string \<Rightarrow> string
     \<Rightarrow> error + scatter figure"
where
  "generate_chart L ticker data legs entry_price exit_price direction interval =
     (if empty data then Inl (ValueError ''No data available'')
      else
        case create_custom_style of
          Inl e \<Rightarrow> Inl e
        | Inr style \<Rightarrow>
            let price_range = High_max data - Low_min data;
                marker_offset = price_range * 0.04
            in Inr \<lparr> hlines = entry_line False entry_price
                          # exit_line False entry_price exit_price direction,
                     scatters = snd (add_markers L data marker_offset legs),
                     ylim = new_ylim data (mpf_plot L data),
                     title = ticker @ '' - '' @ interval_labels interval \<rparr>)"

subsection \<open>api/chart-image/index.py\<close>

text \<open>
  Lines 47-73: the keywords this file's \<^verbatim>\<open>create_custom_style\<close> passes to
  \<^verbatim>\<open>make_mpf_style\<close>; \<^verbatim>\<open>gridwidth\<close> is among them.
\<close>

definition create_custom_style_index :: "error + unit" where
  "create_custom_style_index =
     make_mpf_style [''base_mpl_style'', ''marketcolors'', ''facecolor'', ''edgecolor'',
       ''figcolor'', ''gridcolor'', ''gridstyle'', ''gridwidth'', ''y_on_right'', ''rc'']"

text \<open>
  Lines 162-185: one turn of the loop. Every key is read with \<^verbatim>\<open>leg[k]\<close>; the timezone
  is dropped whatever the index carries; the marker sits at the leg's own position and
  price. \<open>None\<close> when the \<^verbatim>\<open>try\<close> block raised or the position is out of range.
\<close>

datatype scatter_index = Scatter_index int json string string

definition color_index :: "json \<Rightarrow> string" where
  "color_index t =
     (if t = JStr ''ENTRY'' then ''#10b981''
      else if t = JStr ''ADD'' then ''#3b82f6''
      else if t = JStr ''TRIM'' then ''#f59e0b''
      else ''#ef4444'')"

definition marker_index :: "libs \<Rightarrow> dataframe \<Rightarrow> json \<Rightarrow> scatter_index option" where
  "marker_index L data lg =
     (case getitem lg ''executed_at'' of
        Inl e \<Rightarrow> None
      | Inr v \<Rightarrow>
          (case pd_Timestamp L v of
             Inl e \<Rightarrow> None
           | Inr t \<Rightarrow>
               (case tz_localize None t of
                  Inl e \<Rightarrow> None
                | Inr naive \<Rightarrow>
                    (case get_indexer L data naive of
                       Inl e \<Rightarrow> None
                     | Inr idx \<Rightarrow>
                         if 0 \<le> idx \<and> idx < int (length (rows data)) then
                           (case getitem lg ''price'' of
                              Inl e \<Rightarrow> None
                            | Inr yp \<Rightarrow>
                                (case getitem lg ''leg_type'' of
                                   Inl e \<Rightarrow> None
                                 | Inr t \<Rightarrow>
                                     Some (Scatter_index idx yp
                                             (if is_buy t then ''^'' else ''v'')
                                             (color_index t))))
                         else None))))"

text \<open>
  Lines 107-196. The style is made right after the emptiness test and outside every
  \<^verbatim>\<open>try\<close>; what follows it is reached only when it returns.
\<close>

definition generate_chart_index ::
  "libs \<Rightarrow> string \<Rightarrow> dataframe \<Rightarrow> json list \<Rightarrow> real \<Rightarrow> real option \<Rightarrow> string
     \<Rightarrow> error + scatter_index figure"
where
  "generate_chart_index L ticker data legs entry_price exit_price direction =
     (if empty data then Inl (ValueError ''No data available'')
      else
        case create_custom_style_index of
          Inl e \<Rightarrow> Inl e
        | Inr style \<Rightarrow>
            Inr \<lparr> hlines = entry_line True entry_price
                       # exit_line True entry_price exit_price direction,
                  scatters = List.map_filter (marker_index L data) legs,
                  ylim = mpf_plot L data,
                  title = ticker @ '' - Daily'' \<rparr>)"

text \<open>Line 79: \<^verbatim>\<open>str.replace('Z', '+00:00')\<close>.\<close>

definition replace_Z :: "string \<Rightarrow> string" where
  "replace_Z str = concat (map (\<lambda>c. if c = CHR ''Z'' then ''+00:00'' else [c]) str)"

text \<open>
  Lines 76-104: \<^verbatim>\<open>fetch_data\<close>. A query without \<^verbatim>\<open>from\<close> hands \<^verbatim>\<open>None\<close> over as
  \<^verbatim>\<open>start_date\<close>, and \<^verbatim>\<open>None.replace\<close> raises \<^verbatim>\<open>AttributeError\<close>; an empty or missing
  \<^verbatim>\<open>end_date\<close> is \<^verbatim>\<open>datetime.now()\<close>.
\<close>

definition fetch_data ::
  "libs \<Rightarrow> string \<Rightarrow> string option \<Rightarrow> string option \<Rightarrow> string \<Rightarrow> error + dataframe"
where
  "fetch_data L ticker start_date end_date interval =
     (case start_date of
        None \<Rightarrow> Inl (AttributeError ''replace'')
      | Some sd \<Rightarrow>
          (case fromisoformat L (replace_Z sd) of
             Inl e \<Rightarrow> Inl e
           | Inr start \<Rightarrow>
               (case (case end_date of
                        None \<Rightarrow> Inr (now L)
                      | Some ed \<Rightarrow>
                          if ed = '''' then Inr (now L) else fromisoformat L (replace_Z ed)) of
                  Inl e \<Rightarrow> Inl e
                | Inr stop \<Rightarrow>
                    (let start' = (if interval = ''1d'' then start - 30 * 86400
                                   else if interval = ''1h'' then start - 5 * 86400
                                   else start - 1 * 86400);
                         stop' = (if interval = ''1d'' then stop + 5 * 86400
                                  else if interval = ''1h'' then stop + 1 * 86400
                                  else stop + 1 * 86400);
                         yf_interval = (if interval = ''1d'' then ''1d''
                                        else if interval = ''1h'' then ''1h''
                                        else if interval = ''5m'' then ''5m''
                                        else ''1d'')
                     in Inr (yf_download L ticker (strftime L start') (strftime L stop')
                               yf_interval)))))"

text \<open>
  Lines 200-244: the handler, from the query parameters as read. The interval goes to the
  fetch only; any exception becomes the error response.
\<close>

definition do_GET ::
  "libs \<Rightarrow> string \<Rightarrow> string \<Rightarrow> string option \<Rightarrow> string option \<Rightarrow> real \<Rightarrow> real option
     \<Rightarrow> string \<Rightarrow> json list \<Rightarrow> error + scatter_index figure"
where
  "do_GET L ticker interval from_date to_date entry_price exit_price direction legs =
     (case fetch_data L ticker from_date to_date interval of
        Inl e \<Rightarrow> Inl e
      | Inr data \<Rightarrow>
          generate_chart_index L ticker data legs entry_price exit_price direction)"

subsection \<open>Notions the statements use\<close>

text \<open>
  The \<^verbatim>\<open>leg_type\<close> a leg carries (\<open>JNull\<close> when there is none); the legs of a list that
  get a marker (they resolve, and their colour lookup does not raise), in input order; and
  the number of legs of a list drawn at a position.
\<close>

definition leg_type_of :: "json \<Rightarrow> json" where
  "leg_type_of lg = (case get lg ''leg_type'' JNull of Inl e \<Rightarrow> JNull | Inr t \<Rightarrow> t)"

definition drawn :: "libs \<Rightarrow> dataframe \<Rightarrow> json list \<Rightarrow> json list" where
  "drawn L data legs =
     filter (\<lambda>lg. leg_position L data lg \<noteq> None \<and> hashable (leg_type_of lg)) legs"


text \<open>The colour of a marker whose lookup does not raise.\<close>

definition color_of :: "json \<Rightarrow> string" where
  "color_of t =
     (if t = JStr ''ENTRY'' then ''#10b981''
      else if t = JStr ''ADD'' then ''#3b82f6''
      else if t = JStr ''TRIM'' then ''#f59e0b''
      else if t = JStr ''EXIT'' then ''#ef4444''
      else ''#71717a'')"

text \<open>The number of legs of a list that resolve to a position, drawn or not.\<close>

definition counted_at :: "libs \<Rightarrow> dataframe \<Rightarrow> json list \<Rightarrow> int \<Rightarrow> nat" where
  "counted_at L data legs idx =
     length (filter (\<lambda>lg. leg_position L data lg = Some idx) legs)"

subsection \<open>A sample series and sample library behaviour\<close>

text \<open>
  Five daily bars, 2024-01-01 to 2024-01-05 (midnight, in seconds since the epoch), once
  with a naive index and once with a UTC-aware one. The sample \<open>pd_Timestamp\<close> reads the
  few strings the examples use and raises on anything else; the sample \<open>get_indexer\<close>
  refuses to compare naive with aware, answers \<open>-1\<close> for \<open>NaT\<close> and otherwise returns the
  position of the nearest index entry, the later one on a tie. The sample download
  returns the five bars for every request.
\<close>

definition day :: "int \<Rightarrow> int" where
  "day n = 1704067200 + 86400 * n"

definition bar :: "int \<Rightarrow> real \<Rightarrow> real \<Rightarrow> real \<Rightarrow> real \<Rightarrow> candle" where
  "bar n o' h l c = \<lparr> stamp = day n, Open = o', High = h, Low = l, Close = c, Volume = 1000 \<rparr>"

definition bars5 :: "candle list" where
  "bars5 = [bar 0 100 104 98 102, bar 1 102 106 100 105, bar 2 105 108 101 103,
            bar 3 103 110 102 109, bar 4 109 118 107 112]"

definition daily5 :: dataframe where
  "daily5 = \<lparr> index_tz = None, rows = bars5 \<rparr>"

definition daily5_utc :: dataframe where
  "daily5_utc = \<lparr> index_tz = Some UTC, rows = bars5 \<rparr>"

definition no_data :: dataframe where
  "no_data = \<lparr> index_tz = None, rows = [] \<rparr>"

definition EST :: tzinfo where
  "EST = TzInfo ''UTC-05:00'' (\<lambda>_. - 18000)"

definition sample_Timestamp :: "json \<Rightarrow> error + timestamp" where
  "sample_Timestamp v =
     (if v = JStr '''' then Inr NaT
      else if v = JStr ''2024-01-01'' then Inr (Naive (day 0))
      else if v = JStr ''2024-01-02'' then Inr (Naive (day 1))
      else if v = JStr ''2024-01-03'' then Inr (Naive (day 2))
      else if v = JStr ''2024-01-04'' then Inr (Naive (day 3))
      else if v = JStr ''2024-01-05'' then Inr (Naive (day 4))
      else if v = JStr ''2024-01-03T00:00:00+00:00'' then Inr (Aware (day 2) UTC)
      else if v = JStr ''2024-01-02T19:00:00-05:00'' then Inr (Aware (day 2) EST)
      else Inl (ValueError ''could not convert to Timestamp''))"

fun nearest_scan :: "int \<Rightarrow> int list \<Rightarrow> int \<Rightarrow> int \<Rightarrow> int \<Rightarrow> int" where
  "nearest_scan t [] i best d = best"
| "nearest_scan t (x # xs) i best d =
     (if best < 0 \<or> \<bar>x - t\<bar> \<le> d then nearest_scan t xs (i + 1) i \<bar>x - t\<bar>
      else nearest_scan t xs (i + 1) best d)"

definition sample_get_indexer :: "dataframe \<Rightarrow> timestamp \<Rightarrow> error + int" where
  "sample_get_indexer data t =
     (case t of
        NaT \<Rightarrow> Inr (- 1)
      | Naive w \<Rightarrow>
          (case index_tz data of
             None \<Rightarrow> Inr (nearest_scan w (map stamp (rows data)) 0 (- 1) 0)
           | Some z \<Rightarrow> Inl (TypeError ''Cannot compare tz-naive and tz-aware timestamps''))
      | Aware i z' \<Rightarrow>
          (case index_tz data of
             None \<Rightarrow> Inl (TypeError ''Cannot compare tz-naive and tz-aware timestamps'')
           | Some z \<Rightarrow> Inr (nearest_scan i (map stamp (rows data)) 0 (- 1) 0)))"

definition sample_libs :: libs where
  "sample_libs =
     \<lparr> pd_Timestamp = sample_Timestamp,
       get_indexer = sample_get_indexer,
       mpf_plot = (\<lambda>data. (Low_min data - 0.01 * (High_max data - Low_min data),
                            High_max data + 0.01 * (High_max data - Low_min data))),
       fromisoformat = (\<lambda>str. if str = ''2024-01-01'' then Inr (day 0)
                               else Inl (ValueError ''Invalid isoformat string'')),
       now = day 10,
       strftime = (\<lambda>t. ''%Y-%m-%d''),
       yf_download = (\<lambda>ticker start stop interval. daily5) \<rparr>"

definition mk_leg :: "string \<Rightarrow> string \<Rightarrow> real \<Rightarrow> json" where
  "mk_leg t ts p =
     JObject [(''executed_at'', JStr ts), (''leg_type'', JStr t), (''price'', JNum p)]"

text \<open>A leg whose \<^verbatim>\<open>leg_type\<close> is the JSON array \<^verbatim>\<open>[]\<close>.\<close>

definition odd_leg :: "string \<Rightarrow> json" where
  "odd_leg ts = JObject [(''executed_at'', JStr ts), (''leg_type'', JArray [])]"

section \<open>Properties\<close>

subsection \<open>The two styles\<close>

lemma create_custom_style_ok: "create_custom_style = Inr ()"
  by (simp add: create_custom_style_def make_mpf_style_def valid_make_mpf_style_kwargs_def)

lemma create_custom_style_index_fails:
  "create_custom_style_index = Inl (KeyError ''Unrecognized kwarg=gridwidth'')"
  by (simp add: create_custom_style_index_def make_mpf_style_def
      valid_make_mpf_style_kwargs_def)

lemma generate_chart_Inr:
  "rows data \<noteq> [] \<Longrightarrow>
   generate_chart L ticker data legs entry_price exit_price direction interval =
     Inr \<lparr> hlines = entry_line False entry_price
                  # exit_line False entry_price exit_price direction,
             scatters = snd (add_markers L data (0.04 * (High_max data - Low_min data)) legs),
             ylim = new_ylim data (mpf_plot L data),
             title = ticker @ '' - '' @ interval_labels interval \<rparr>"
  by (simp add: generate_chart_def empty_def create_custom_style_ok Let_def mult.commute)

text \<open>api/chart-image/index.py returns no figure on any non-empty frame.\<close>

lemma generate_chart_index_fails:
  "rows data \<noteq> [] \<Longrightarrow>
   generate_chart_index L ticker data legs entry_price exit_price direction =
     Inl (KeyError ''Unrecognized kwarg=gridwidth'')"
  by (simp add: generate_chart_index_def empty_def create_custom_style_index_fails)

subsection \<open>The loop over the legs\<close>

lemma leg_position_dict:
  assumes "leg_position L data lg = Some idx"
  shows "\<exists>kvs. lg = JObject kvs"
proof (cases lg)
  case (JObject kvs)
  then show ?thesis by simp
qed (use assms in \<open>simp_all add: leg_position_def leg_date_def\<close>)

lemma get_leg_type:
  assumes "leg_position L data lg = Some idx"
  shows "get lg ''leg_type'' JNull = Inr (leg_type_of lg)"
proof -
  obtain kvs where "lg = JObject kvs"
    using leg_position_dict [OF assms] by blast
  then show ?thesis
    by (simp add: leg_type_of_def)
qed

lemma colors_hashable: "hashable t \<Longrightarrow> colors t = Inr (color_of t)"
  by (simp add: colors_def color_of_def)

lemma colors_unhashable: "\<not> hashable t \<Longrightarrow> colors t = Inl (TypeError ''unhashable type'')"
  by (simp add: colors_def)

lemma add_marker_skip:
  "leg_position L data lg = None \<Longrightarrow> add_marker L data mo lg st = st"
  by (simp add: add_marker_def)

lemma add_marker_draw:
  assumes "leg_position L data lg = Some idx" and "hashable (leg_type_of lg)"
  shows "add_marker L data mo lg st =
     ((fst st)(idx \<mapsto> marker_count_at (fst st) idx + 1),
      snd st @ [Scatter
        (real_of_int idx + x_offset (is_buy (leg_type_of lg)) (marker_count_at (fst st) idx))
        (if is_buy (leg_type_of lg) then Low (rows data ! nat idx) - mo
         else High (rows data ! nat idx) + mo)
        (if is_buy (leg_type_of lg) then ''^'' else ''v'')
        (color_of (leg_type_of lg)) 150 ''white''])"
  using assms
  by (simp add: add_marker_def get_leg_type [OF assms(1)] colors_hashable Let_def)

lemma add_marker_count_only:
  assumes "leg_position L data lg = Some idx" and "\<not> hashable (leg_type_of lg)"
  shows "add_marker L data mo lg st =
     ((fst st)(idx \<mapsto> marker_count_at (fst st) idx + 1), snd st)"
  using assms
  by (simp add: add_marker_def get_leg_type [OF assms(1)] colors_unhashable Let_def)

lemma add_markers_snoc:
  "add_markers L data mo (legs @ [lg]) = add_marker L data mo lg (add_markers L data mo legs)"
  by (simp add: add_markers_def)

text \<open>A leg that does not resolve leaves the whole loop as it is without the leg.\<close>

lemma add_markers_drop:
  "leg_position L data lg = None \<Longrightarrow>
   add_markers L data mo (pre @ lg # post) = add_markers L data mo (pre @ post)"
  by (simp add: add_markers_def add_marker_skip)

text \<open>The counter of a position is the number of legs that resolved to it so far.\<close>

lemma add_markers_count:
  "marker_count_at (fst (add_markers L data mo legs)) idx = counted_at L data legs idx"
proof (induction legs rule: rev_induct)
  case Nil
  show ?case by (simp add: add_markers_def marker_count_at_def counted_at_def)
next
  case (snoc lg legs)
  show ?case
  proof (cases "leg_position L data lg")
    case None
    with snoc show ?thesis
      by (simp add: add_markers_snoc add_marker_skip counted_at_def)
  next
    case (Some j)
    show ?thesis
    proof (cases "hashable (leg_type_of lg)")
      case True
      with snoc Some show ?thesis
        by (auto simp: add_markers_snoc add_marker_draw counted_at_def marker_count_at_def)
    next
      case False
      with snoc Some show ?thesis
        by (auto simp: add_markers_snoc add_marker_count_only counted_at_def
            marker_count_at_def)
    qed
  qed
qed

lemma fold_add_marker_prefix:
  "\<exists>ms. snd (fold (add_marker L data mo) legs st) = snd st @ ms"
proof (induction legs arbitrary: st)
  case Nil
  show ?case by simp
next
  case (Cons lg legs)
  obtain ms where ms: "snd (fold (add_marker L data mo) legs (add_marker L data mo lg st))
      = snd (add_marker L data mo lg st) @ ms"
    using Cons.IH by blast
  show ?case
  proof (cases "leg_position L data lg")
    case None
    with ms show ?thesis by (simp add: add_marker_skip)
  next
    case (Some j)
    show ?thesis
    proof (cases "hashable (leg_type_of lg)")
      case True
      with ms Some show ?thesis by (simp add: add_marker_draw)
    next
      case False
      with ms Some show ?thesis by (simp add: add_marker_count_only)
    qed
  qed
qed

text \<open>One marker for each leg that resolves and whose colour lookup does not raise.\<close>

lemma add_markers_length:
  "length (snd (add_markers L data mo legs)) = length (drawn L data legs)"
proof (induction legs rule: rev_induct)
  case Nil
  show ?case by (simp add: add_markers_def drawn_def)
next
  case (snoc lg legs)
  show ?case
  proof (cases "leg_position L data lg")
    case None
    with snoc show ?thesis
      by (simp add: add_markers_snoc add_marker_skip drawn_def)
  next
    case (Some j)
    show ?thesis
    proof (cases "hashable (leg_type_of lg)")
      case True
      with snoc Some show ?thesis
        by (simp add: add_markers_snoc add_marker_draw drawn_def)
    next
      case False
      with snoc Some show ?thesis
        by (simp add: add_markers_snoc add_marker_count_only drawn_def)
    qed
  qed
qed

text \<open>
  The marker of a leg that is drawn: it is the entry of the marker list at the number of
  legs drawn before it, and its counter value is the number of legs that resolved to its
  position before it.
\<close>

lemma marker_of_leg:
  assumes "leg_position L data lg = Some idx" and "hashable (leg_type_of lg)"
  shows "snd (add_markers L data mo (pre @ lg # post)) ! length (drawn L data pre)
         = Scatter
             (real_of_int idx + x_offset (is_buy (leg_type_of lg)) (counted_at L data pre idx))
             (if is_buy (leg_type_of lg) then Low (rows data ! nat idx) - mo
              else High (rows data ! nat idx) + mo)
             (if is_buy (leg_type_of lg) then ''^'' else ''v'')
             (color_of (leg_type_of lg)) 150 ''white''"
proof -
  let ?st = "add_marker L data mo lg (add_markers L data mo pre)"
  let ?m = "Scatter
             (real_of_int idx + x_offset (is_buy (leg_type_of lg)) (counted_at L data pre idx))
             (if is_buy (leg_type_of lg) then Low (rows data ! nat idx) - mo
              else High (rows data ! nat idx) + mo)
             (if is_buy (leg_type_of lg) then ''^'' else ''v'')
             (color_of (leg_type_of lg)) 150 ''white''"
  obtain ms where ms: "snd (fold (add_marker L data mo) post ?st) = snd ?st @ ms"
    using fold_add_marker_prefix by blast
  have st: "snd ?st = snd (add_markers L data mo pre) @ [?m]"
    by (simp add: add_marker_draw [OF assms] add_markers_count)
  have "snd (add_markers L data mo (pre @ lg # post)) = (snd (add_markers L data mo pre) @ [?m]) @ ms"
    using ms unfolding st by (simp add: add_markers_def)
  then show ?thesis
    by (simp add: nth_append add_markers_length)
qed

text \<open>Evaluation of the sample inputs.\<close>

lemma sample_frames [simp]:
  "rows daily5 = bars5" "rows daily5_utc = bars5" "rows no_data = []"
  "index_tz daily5 = None" "index_tz daily5_utc = Some UTC"
  "bars5 \<noteq> []" "length bars5 = 5"
  by (simp_all add: daily5_def daily5_utc_def no_data_def bars5_def)

lemma sample_range [simp]:
  "High_max daily5 = 118" "Low_min daily5 = 98"
  "High_max daily5_utc = 118" "Low_min daily5_utc = 98"
  by (simp_all add: High_max_def Low_min_def bars5_def bar_def)

lemma sample_leg [simp]:
  "leg_type_of (mk_leg ty ts p) = JStr ty"
  "leg_type_of (odd_leg ts) = JArray []"
  by (simp_all add: mk_leg_def odd_leg_def leg_type_of_def)

lemma sample_date [simp]:
  "leg_date sample_libs data (mk_leg ty ts p)
     = leg_date sample_libs data (JObject [(''executed_at'', JStr ts)])"
  "leg_date sample_libs data (odd_leg ts)
     = leg_date sample_libs data (JObject [(''executed_at'', JStr ts)])"
  by (simp_all add: leg_date_def mk_leg_def odd_leg_def)

lemma sample_pos_raw:
  "leg_position sample_libs daily5 (JObject [(''executed_at'', JStr ''2024-01-01'')]) = Some 0"
  "leg_position sample_libs daily5 (JObject [(''executed_at'', JStr ''2024-01-03'')]) = Some 2"
  "leg_position sample_libs daily5 (JObject [(''executed_at'', JStr ''2024-01-05'')]) = Some 4"
  "leg_position sample_libs daily5 (JObject [(''executed_at'', JStr ''not a date'')]) = None"
  "leg_position sample_libs daily5 (JObject [(''executed_at'', JStr '''')]) = None"
  by (simp_all add: leg_position_def leg_date_def sample_libs_def sample_Timestamp_def
      sample_get_indexer_def bars5_def bar_def day_def)

lemma sample_pos [simp]:
  "leg_position sample_libs daily5 (mk_leg ty ''2024-01-01'' p) = Some 0"
  "leg_position sample_libs daily5 (mk_leg ty ''2024-01-03'' p) = Some 2"
  "leg_position sample_libs daily5 (mk_leg ty ''2024-01-05'' p) = Some 4"
  "leg_position sample_libs daily5 (mk_leg ty ''not a date'' p) = None"
  "leg_position sample_libs daily5 (mk_leg ty '''' p) = None"
  "leg_position sample_libs daily5 (odd_leg ''2024-01-03'') = Some 2"
  using sample_pos_raw by (simp_all add: leg_position_def)

lemma sample_add_marker [simp]:
  "add_marker sample_libs daily5 mo (mk_leg ty ''2024-01-01'' p) st =
     ((fst st)(0 \<mapsto> marker_count_at (fst st) 0 + 1),
      snd st @ [Scatter (0 + x_offset (is_buy (JStr ty)) (marker_count_at (fst st) 0))
        (if is_buy (JStr ty) then Low (bars5 ! 0) - mo else High (bars5 ! 0) + mo)
        (if is_buy (JStr ty) then ''^'' else ''v'') (color_of (JStr ty)) 150 ''white''])"
  "add_marker sample_libs daily5 mo (mk_leg ty ''2024-01-03'' p) st =
     ((fst st)(2 \<mapsto> marker_count_at (fst st) 2 + 1),
      snd st @ [Scatter (2 + x_offset (is_buy (JStr ty)) (marker_count_at (fst st) 2))
        (if is_buy (JStr ty) then Low (bars5 ! 2) - mo else High (bars5 ! 2) + mo)
        (if is_buy (JStr ty) then ''^'' else ''v'') (color_of (JStr ty)) 150 ''white''])"
  "add_marker sample_libs daily5 mo (mk_leg ty ''2024-01-05'' p) st =
     ((fst st)(4 \<mapsto> marker_count_at (fst st) 4 + 1),
      snd st @ [Scatter (4 + x_offset (is_buy (JStr ty)) (marker_count_at (fst st) 4))
        (if is_buy (JStr ty) then Low (bars5 ! 4) - mo else High (bars5 ! 4) + mo)
        (if is_buy (JStr ty) then ''^'' else ''v'') (color_of (JStr ty)) 150 ''white''])"
  "add_marker sample_libs daily5 mo (mk_leg ty ''not a date'' p) st = st"
  "add_marker sample_libs daily5 mo (mk_leg ty '''' p) st = st"
  "add_marker sample_libs daily5 mo (odd_leg ''2024-01-03'') st =
     ((fst st)(2 \<mapsto> marker_count_at (fst st) 2 + 1), snd st)"
  using add_marker_draw [of sample_libs daily5 "mk_leg ty ''2024-01-01'' p" 0 mo st]
    add_marker_draw [of sample_libs daily5 "mk_leg ty ''2024-01-03'' p" 2 mo st]
    add_marker_draw [of sample_libs daily5 "mk_leg ty ''2024-01-05'' p" 4 mo st]
    add_marker_skip [of sample_libs daily5 "mk_leg ty ''not a date'' p" mo st]
    add_marker_skip [of sample_libs daily5 "mk_leg ty '''' p" mo st]
    add_marker_count_only [of sample_libs daily5 "odd_leg ''2024-01-03''" 2 mo st]
  by simp_all

lemmas sample_eval =
  generate_chart_Inr generate_chart_index_fails add_markers_def marker_count_at_def
  x_offset_def is_buy_def color_of_def bars5_def bar_def

subsection \<open>Empty series\<close>

text \<open>
  C1: for an empty OHLCV series \<open>generate_chart\<close> raises \<^verbatim>\<open>ValueError("No data available")\<close>
  whatever the other inputs are, so no image is produced; for a non-empty series that
  error branch is not taken. Both implementations.
\<close>

theorem C1_no_data_iff_empty:
  "(generate_chart L ticker data legs entry_price exit_price direction interval
      = Inl (ValueError ''No data available'')) = (rows data = [])
   \<and> (generate_chart_index L ticker data legs entry_price exit_price direction
      = Inl (ValueError ''No data available'')) = (rows data = [])
   \<and> (isl (generate_chart L ticker data legs entry_price exit_price direction interval)
      = (rows data = []))"
  by (simp add: generate_chart_def generate_chart_index_def empty_def Let_def
      create_custom_style_ok create_custom_style_index_fails)

theorem C1_no_data_iff_empty_witness:
  "generate_chart sample_libs ''AAPL'' no_data [mk_leg ''ENTRY'' ''2024-01-03'' 100] 100
       (Some 110) ''LONG'' ''1d'' = Inl (ValueError ''No data available'')
   \<and> generate_chart_index sample_libs ''AAPL'' no_data [mk_leg ''ENTRY'' ''2024-01-03'' 100]
       100 (Some 110) ''LONG'' = Inl (ValueError ''No data available'')
   \<and> \<not> isl (generate_chart sample_libs ''AAPL'' daily5 [] 100 None ''LONG'' ''1d'')
   \<and> generate_chart_index sample_libs ''AAPL'' daily5 [] 100 None ''LONG''
       \<noteq> Inl (ValueError ''No data available'')"
  using C1_no_data_iff_empty [of sample_libs "''AAPL''" no_data
      "[mk_leg ''ENTRY'' ''2024-01-03'' 100]" 100 "Some 110" "''LONG''" "''1d''"]
    C1_no_data_iff_empty [of sample_libs "''AAPL''" daily5 "[]" 100 None "''LONG''" "''1d''"]
  by simp

subsection \<open>Malformed legs\<close>

lemma leg_position_parse_fail:
  "get lg ''executed_at'' (JStr '''') = Inr v \<Longrightarrow> pd_Timestamp L v = Inl err \<Longrightarrow>
   leg_position L data lg = None"
  by (simp add: leg_position_def leg_date_def)

lemma leg_position_out_of_range:
  "leg_date L data lg = Inr t \<Longrightarrow> get_indexer L data t = Inr idx \<Longrightarrow>
   idx < 0 \<or> int (length (rows data)) \<le> idx \<Longrightarrow> leg_position L data lg = None"
  by (auto simp: leg_position_def)

lemma leg_position_in_range:
  "leg_date L data lg = Inr t \<Longrightarrow> get_indexer L data t = Inr idx \<Longrightarrow>
   0 \<le> idx \<Longrightarrow> idx < int (length (rows data)) \<Longrightarrow> leg_position L data lg = Some idx"
  by (simp add: leg_position_def)

text \<open>
  In scripts/chart-server.py a leg whose timestamp does not parse, or whose position is out
  of range, leaves the render as it is without the leg, and a non-empty series gives a
  figure with one marker for each leg that resolves and whose colour lookup does not raise.
\<close>

lemma malformed_leg_skipped:
  assumes "rows data \<noteq> []"
    and "(get lg ''executed_at'' (JStr '''') = Inr v \<and> pd_Timestamp L v = Inl err)
         \<or> (leg_date L data lg = Inr t \<and> get_indexer L data t = Inr idx
             \<and> (idx < 0 \<or> int (length (rows data)) \<le> idx))"
  shows "generate_chart L ticker data (pre @ lg # post) entry_price exit_price direction interval
         = generate_chart L ticker data (pre @ post) entry_price exit_price direction interval"
proof -
  have "leg_position L data lg = None"
    using assms(2) leg_position_parse_fail leg_position_out_of_range by blast
  then show ?thesis
    using assms(1) by (simp add: generate_chart_Inr add_markers_drop)
qed

lemma markers_drawn:
  assumes "rows data \<noteq> []"
  shows "\<exists>fig. generate_chart L ticker data legs entry_price exit_price direction interval
           = Inr fig \<and> length (scatters fig) = length (drawn L data legs)"
  using assms by (simp add: generate_chart_Inr add_markers_length)

text \<open>
  C2: on a non-empty series a leg whose timestamp does not parse is skipped and the render
  still returns an image with the other legs drawn. scripts/chart-server.py does so on the
  five bars with legs on the first bar, on no date and on the last bar: two markers, at
  \<open>0 - 0.15\<close> and \<open>4 + 0.15\<close>, the same render as without the middle leg.
  api/chart-image/index.py raises \<^verbatim>\<open>KeyError\<close> on the same input and returns no image.
\<close>

theorem C2_index_render_fails:
  "generate_chart_index sample_libs ''AAPL'' daily5
       [mk_leg ''ENTRY'' ''2024-01-01'' 100, mk_leg ''ADD'' ''not a date'' 101,
        mk_leg ''EXIT'' ''2024-01-05'' 110] 100 (Some 110) ''LONG''
     = Inl (KeyError ''Unrecognized kwarg=gridwidth'')
   \<and> (\<exists>fig. generate_chart sample_libs ''AAPL'' daily5
       [mk_leg ''ENTRY'' ''2024-01-01'' 100, mk_leg ''ADD'' ''not a date'' 101,
        mk_leg ''EXIT'' ''2024-01-05'' 110] 100 (Some 110) ''LONG'' ''1d'' = Inr fig
       \<and> map x_pos (scatters fig) = [0 - 0.15, 4 + 0.15])
   \<and> generate_chart sample_libs ''AAPL'' daily5
       [mk_leg ''ENTRY'' ''2024-01-01'' 100, mk_leg ''ADD'' ''not a date'' 101,
        mk_leg ''EXIT'' ''2024-01-05'' 110] 100 (Some 110) ''LONG'' ''1d''
     = generate_chart sample_libs ''AAPL'' daily5
       [mk_leg ''ENTRY'' ''2024-01-01'' 100, mk_leg ''EXIT'' ''2024-01-05'' 110]
       100 (Some 110) ''LONG'' ''1d''"
  by (simp add: sample_eval)

subsection \<open>Horizontal offsets\<close>


text \<open>
  C3: three buy-side legs on one bar of scripts/chart-server.py get the offsets \<open>- 0.15\<close>,
  \<open>0\<close> and \<open>0.15\<close>: the second and third move right, the magnitudes 0.15, 0, 0.15 are
  neither strictly increasing nor pairwise distinct, and the third buy sits where the first
  sell-side marker of a bar sits.
\<close>

theorem C3_three_buys_offsets:
  "(\<exists>fig. generate_chart sample_libs ''AAPL'' daily5
        [mk_leg ''ENTRY'' ''2024-01-03'' 100, mk_leg ''ADD'' ''2024-01-03'' 101,
         mk_leg ''ADD'' ''2024-01-03'' 102] 100 None ''LONG'' ''1d'' = Inr fig
      \<and> map (\<lambda>m. x_pos m - 2) (scatters fig) = [- 0.15, 0, 0.15])
   \<and> \<not> sorted_wrt (<) (map abs [- 0.15, 0, 0.15 :: real])
   \<and> \<not> distinct (map abs [- 0.15, 0, 0.15 :: real])
   \<and> (\<exists>fig. generate_chart sample_libs ''AAPL'' daily5
        [mk_leg ''EXIT'' ''2024-01-03'' 110] 100 None ''LONG'' ''1d'' = Inr fig
      \<and> map (\<lambda>m. x_pos m - 2) (scatters fig) = [0.15])"
  by (simp add: sample_eval)




subsection \<open>Marker height, shape and colour\<close>

text \<open>
  In scripts/chart-server.py the marker of a leg that is drawn is placed from the candle at
  the resolved position: below its Low by 4% of the price range for a buy-side leg, above
  its High by the same for any other; its colour is that of its \<^verbatim>\<open>leg_type\<close>, gray for a
  type that is none of the four.
\<close>

lemma marker_height_colour:
  assumes "rows data \<noteq> []"
    and "leg_position L data lg = Some idx"
    and "hashable (leg_type_of lg)"
  shows "\<exists>fig. generate_chart L ticker data (pre @ lg # post) entry_price exit_price direction
              interval = Inr fig
          \<and> y_pos (scatters fig ! length (drawn L data pre))
              = (if is_buy (leg_type_of lg)
                 then Low (rows data ! nat idx) - 0.04 * (High_max data - Low_min data)
                 else High (rows data ! nat idx) + 0.04 * (High_max data - Low_min data))
          \<and> marker (scatters fig ! length (drawn L data pre))
              = (if is_buy (leg_type_of lg) then ''^'' else ''v'')
          \<and> color (scatters fig ! length (drawn L data pre)) = color_of (leg_type_of lg)"
  using assms(1) marker_of_leg [OF assms(2) assms(3)]
  by (simp add: generate_chart_Inr)

text \<open>
  C5: the marker of a resolved leg is placed from the candle at the resolved position, not
  from the leg's price. For an ENTRY leg on the third bar with price 105.5,
  scripts/chart-server.py places the marker at the bar's Low less 4% of the range, 100.2;
  api/chart-image/index.py raises \<^verbatim>\<open>KeyError\<close> on the same input and places no marker.
\<close>

theorem C5_index_no_marker:
  "generate_chart_index sample_libs ''AAPL'' daily5 [mk_leg ''ENTRY'' ''2024-01-03'' 105.5]
       100 None ''LONG'' = Inl (KeyError ''Unrecognized kwarg=gridwidth'')
   \<and> (\<exists>fig. generate_chart sample_libs ''AAPL'' daily5 [mk_leg ''ENTRY'' ''2024-01-03'' 105.5]
        100 None ''LONG'' ''1d'' = Inr fig
      \<and> map y_pos (scatters fig) = [100.2])
   \<and> Low (rows daily5 ! 2) - 0.04 * (High_max daily5 - Low_min daily5) = 100.2"
  by (simp add: sample_eval)

text \<open>
  C8: a leg whose \<^verbatim>\<open>leg_type\<close> is outside ENTRY, ADD, TRIM, EXIT does not make the render
  fail and gets the downward marker in neutral gray. scripts/chart-server.py does so for
  the type HEDGE; for a \<^verbatim>\<open>leg_type\<close> that is a JSON array the colour lookup raises and the
  leg gets no marker at all. api/chart-image/index.py raises \<^verbatim>\<open>KeyError\<close> on a chart with
  the HEDGE leg.
\<close>

theorem C8_unknown_leg_type:
  "generate_chart_index sample_libs ''AAPL'' daily5 [mk_leg ''HEDGE'' ''2024-01-03'' 105]
       100 None ''LONG'' = Inl (KeyError ''Unrecognized kwarg=gridwidth'')
   \<and> (\<exists>fig. generate_chart sample_libs ''AAPL'' daily5 [odd_leg ''2024-01-03'']
        100 None ''LONG'' ''1d'' = Inr fig
      \<and> scatters fig = [])
   \<and> (\<exists>fig. generate_chart sample_libs ''AAPL'' daily5 [mk_leg ''HEDGE'' ''2024-01-03'' 105]
        100 None ''LONG'' ''1d'' = Inr fig
      \<and> map color (scatters fig) = [''#71717a''] \<and> map marker (scatters fig) = [''v''])"
  by (simp add: sample_eval)

subsection \<open>Vertical range\<close>

text \<open>
  In scripts/chart-server.py the final vertical range contains the padded data range and
  the range the rendering engine chose: each bound is the outer one of the two.
\<close>

lemma vertical_range:
  assumes "rows data \<noteq> []"
  shows "\<exists>fig. generate_chart L ticker data legs entry_price exit_price direction interval
              = Inr fig
          \<and> fst (ylim fig) \<le> Low_min data - 0.08 * (High_max data - Low_min data)
          \<and> High_max data + 0.08 * (High_max data - Low_min data) \<le> snd (ylim fig)
          \<and> fst (ylim fig) \<le> fst (mpf_plot L data)
          \<and> snd (mpf_plot L data) \<le> snd (ylim fig)
          \<and> ylim fig
              = (min (fst (mpf_plot L data))
                   (Low_min data - 0.08 * (High_max data - Low_min data)),
                 max (snd (mpf_plot L data))
                   (High_max data + 0.08 * (High_max data - Low_min data)))"
  using assms by (simp add: generate_chart_Inr new_ylim_def Let_def mult.commute)

text \<open>
  C7: on a non-empty series the final vertical range contains
  \<open>[min Low - 0.08 range, max High + 0.08 range]\<close>. On the five bars, with an engine that
  pads by 1%, scripts/chart-server.py ends with \<open>(96.4, 119.6)\<close>;
  api/chart-image/index.py raises \<^verbatim>\<open>KeyError\<close> and has no final range.
\<close>

theorem C7_index_no_range:
  "generate_chart_index sample_libs ''AAPL'' daily5 [mk_leg ''ENTRY'' ''2024-01-03'' 100]
       100 (Some 110) ''LONG'' = Inl (KeyError ''Unrecognized kwarg=gridwidth'')
   \<and> (\<exists>fig. generate_chart sample_libs ''AAPL'' daily5 [mk_leg ''ENTRY'' ''2024-01-03'' 100]
        100 (Some 110) ''LONG'' ''1d'' = Inr fig
      \<and> ylim fig = (96.4, 119.6))
   \<and> Low_min daily5 - 0.08 * (High_max daily5 - Low_min daily5) = 96.4
   \<and> High_max daily5 + 0.08 * (High_max daily5 - Low_min daily5) = 119.6"
  by (simp add: generate_chart_index_fails generate_chart_Inr new_ylim_def sample_libs_def)

subsection \<open>Reference lines\<close>

text \<open>
  C6, as the code has it: in every render of scripts/chart-server.py the entry line is
  drawn at \<open>entry_price\<close> in \<^verbatim>\<open>#10b981\<close>. The exit line is drawn exactly when
  \<open>exit_price\<close> is present and not zero; it is green (\<^verbatim>\<open>#10b981\<close>) exactly when the
  direction is LONG and the exit is above the entry, or the direction is any other string
  and the exit is below the entry, and red (\<^verbatim>\<open>#ef4444\<close>) otherwise. A missing or zero
  \<open>exit_price\<close> leaves the entry line alone, with no error.
\<close>

theorem C6_reference_lines:
  assumes "rows data \<noteq> []"
  shows "\<exists>fig.
           generate_chart L ticker data legs entry_price exit_price direction interval = Inr fig
         \<and> map (\<lambda>l. (line_y l, line_color l)) (hlines fig)
             = (entry_price, ''#10b981'')
               # (if exit_price = None \<or> exit_price = Some 0 then []
                  else [(the exit_price,
                         if (direction = ''LONG'' \<and> the exit_price > entry_price)
                            \<or> (direction \<noteq> ''LONG'' \<and> the exit_price < entry_price)
                         then ''#10b981'' else ''#ef4444'')])"
proof (cases exit_price)
  case None
  then show ?thesis
    using assms by (simp add: generate_chart_Inr entry_line_def exit_line_def)
next
  case (Some p)
  have col: "is_profit direction entry_price p
      = ((direction = ''LONG'' \<and> p > entry_price) \<or> (direction \<noteq> ''LONG'' \<and> p < entry_price))"
    by (auto simp: is_profit_def)
  show ?thesis
    using assms Some by (simp add: generate_chart_Inr entry_line_def exit_line_def col)
qed

theorem C6_reference_lines_witness:
  "(\<exists>fig. generate_chart sample_libs ''AAPL'' daily5 [] 100 (Some 110) ''LONG'' ''1d'' = Inr fig
      \<and> map (\<lambda>l. (line_y l, line_color l)) (hlines fig)
          = [(100, ''#10b981''), (110, ''#10b981'')])
   \<and> (\<exists>fig. generate_chart sample_libs ''AAPL'' daily5 [] 100 (Some 110) ''SHORT'' ''1d''
        = Inr fig
      \<and> map (\<lambda>l. (line_y l, line_color l)) (hlines fig)
          = [(100, ''#10b981''), (110, ''#ef4444'')])
   \<and> (\<exists>fig. generate_chart sample_libs ''AAPL'' daily5 [] 100 (Some 0) ''LONG'' ''1d'' = Inr fig
      \<and> map (\<lambda>l. (line_y l, line_color l)) (hlines fig) = [(100, ''#10b981'')])
   \<and> (\<exists>fig. generate_chart sample_libs ''AAPL'' daily5 [] 100 None ''LONG'' ''1d'' = Inr fig
      \<and> map (\<lambda>l. (line_y l, line_color l)) (hlines fig) = [(100, ''#10b981'')])"
proof -
  have ne: "rows daily5 \<noteq> []"
    by simp
  have a: "\<exists>fig. generate_chart sample_libs ''AAPL'' daily5 [] 100 (Some 110) ''LONG'' ''1d''
        = Inr fig
      \<and> map (\<lambda>l. (line_y l, line_color l)) (hlines fig)
          = [(100, ''#10b981''), (110, ''#10b981'')]"
    using C6_reference_lines [OF ne, of sample_libs "''AAPL''" "[]" 100 "Some 110" "''LONG''"
        "''1d''"]
    by auto
  have b: "\<exists>fig. generate_chart sample_libs ''AAPL'' daily5 [] 100 (Some 110) ''SHORT'' ''1d''
        = Inr fig
      \<and> map (\<lambda>l. (line_y l, line_color l)) (hlines fig)
          = [(100, ''#10b981''), (110, ''#ef4444'')]"
    using C6_reference_lines [OF ne, of sample_libs "''AAPL''" "[]" 100 "Some 110" "''SHORT''"
        "''1d''"]
    by auto
  have c: "\<exists>fig. generate_chart sample_libs ''AAPL'' daily5 [] 100 (Some 0) ''LONG'' ''1d''
        = Inr fig
      \<and> map (\<lambda>l. (line_y l, line_color l)) (hlines fig) = [(100, ''#10b981'')]"
    using C6_reference_lines [OF ne, of sample_libs "''AAPL''" "[]" 100 "Some 0" "''LONG''"
        "''1d''"]
    by auto
  have d: "\<exists>fig. generate_chart sample_libs ''AAPL'' daily5 [] 100 None ''LONG'' ''1d'' = Inr fig
      \<and> map (\<lambda>l. (line_y l, line_color l)) (hlines fig) = [(100, ''#10b981'')]"
    using C6_reference_lines [OF ne, of sample_libs "''AAPL''" "[]" 100 None "''LONG''" "''1d''"]
    by auto
  show ?thesis
    by (intro conjI) (rule a b c d)+
qed

text \<open>
  With the direction \<^verbatim>\<open>long\<close> in lower case, entry 100 and exit 90, the exit line of
  scripts/chart-server.py is green, though the direction is neither LONG with the exit
  above the entry nor SHORT with the exit below it.
\<close>

theorem C6_direction_counterexample:
  "(\<exists>fig. generate_chart sample_libs ''AAPL'' daily5 [] 100 (Some 90) ''long'' ''1d'' = Inr fig
      \<and> map (\<lambda>l. (line_y l, line_color l)) (hlines fig)
          = [(100, ''#10b981''), (90, ''#10b981'')])
   \<and> \<not> ((''long'' = ''LONG'' \<and> (90 :: real) > 100) \<or> (''long'' = ''SHORT'' \<and> (90 :: real) < 100))"
  by (simp add: generate_chart_Inr entry_line_def exit_line_def is_profit_def)

subsection \<open>Timezones\<close>

lemma leg_position_cong:
  "leg_date L data lg = leg_date L data lg' \<Longrightarrow> leg_position L data lg = leg_position L data lg'"
  by (simp add: leg_position_def)

text \<open>
  In scripts/chart-server.py, before the nearest-index resolution, a naive leg timestamp
  against a timezone-aware index is read as UTC (its wall clock \<open>w\<close> is the instant) and
  converted to the index's timezone; an aware leg timestamp against an aware index is
  converted to the index's timezone, the instant unchanged; against a naive index the
  timezone of the leg timestamp is stripped, the local wall clock kept. So against an aware
  index a naive timestamp resolves to the same position as the same instant written in
  UTC.
\<close>

lemma timezone_reconciliation:
  assumes "get lg ''executed_at'' (JStr '''') = Inr v"
  shows "(index_tz data = Some z \<and> pd_Timestamp L v = Inr (Naive w)
      \<longrightarrow> leg_date L data lg = Inr (Aware w z))
   \<and> (index_tz data = Some z \<and> pd_Timestamp L v = Inr (Aware i z')
      \<longrightarrow> leg_date L data lg = Inr (Aware i z))
   \<and> (index_tz data = None \<and> pd_Timestamp L v = Inr (Aware i z')
      \<longrightarrow> leg_date L data lg = Inr (Naive (i + utcoffset z' i)))
   \<and> (index_tz data = None \<and> pd_Timestamp L v = Inr (Naive w)
      \<longrightarrow> leg_date L data lg = Inr (Naive w))
   \<and> (index_tz data = Some z \<and> pd_Timestamp L v = Inr (Naive w)
        \<and> get lg' ''executed_at'' (JStr '''') = Inr v'
        \<and> pd_Timestamp L v' = Inr (Aware w UTC)
      \<longrightarrow> leg_position L data lg = leg_position L data lg')"
proof (intro conjI impI)
  assume "index_tz data = Some z \<and> pd_Timestamp L v = Inr (Naive w)"
  then show "leg_date L data lg = Inr (Aware w z)"
    using assms by (simp add: leg_date_def UTC_def)
next
  assume "index_tz data = Some z \<and> pd_Timestamp L v = Inr (Aware i z')"
  then show "leg_date L data lg = Inr (Aware i z)"
    using assms by (simp add: leg_date_def)
next
  assume "index_tz data = None \<and> pd_Timestamp L v = Inr (Aware i z')"
  then show "leg_date L data lg = Inr (Naive (i + utcoffset z' i))"
    using assms by (simp add: leg_date_def)
next
  assume "index_tz data = None \<and> pd_Timestamp L v = Inr (Naive w)"
  then show "leg_date L data lg = Inr (Naive w)"
    using assms by (simp add: leg_date_def)
next
  assume a: "index_tz data = Some z \<and> pd_Timestamp L v = Inr (Naive w)
        \<and> get lg' ''executed_at'' (JStr '''') = Inr v'
        \<and> pd_Timestamp L v' = Inr (Aware w UTC)"
  then have "leg_date L data lg = Inr (Aware w z)" and "leg_date L data lg' = Inr (Aware w z)"
    using assms by (simp_all add: leg_date_def UTC_def)
  then show "leg_position L data lg = leg_position L data lg'"
    by (simp add: leg_position_cong)
qed

text \<open>
  C4: a naive leg timestamp against a timezone-aware series is read as UTC and converted
  to the series' timezone before the nearest-index resolution, so it resolves to the same
  position as the same instant written in UTC. On the UTC-aware five bars
  scripts/chart-server.py hands \<^verbatim>\<open>2024-01-03\<close> over as that instant in UTC and resolves it
  and \<^verbatim>\<open>2024-01-03T00:00:00+00:00\<close> to the third bar; api/chart-image/index.py raises
  \<^verbatim>\<open>KeyError\<close> on the same chart before it reads any timestamp.
\<close>

theorem C4_index_no_resolution:
  "generate_chart_index sample_libs ''AAPL'' daily5_utc [mk_leg ''ENTRY'' ''2024-01-03'' 100]
       100 None ''LONG'' = Inl (KeyError ''Unrecognized kwarg=gridwidth'')
   \<and> leg_date sample_libs daily5_utc (mk_leg ''ENTRY'' ''2024-01-03'' 100)
       = Inr (Aware (day 2) UTC)
   \<and> leg_position sample_libs daily5_utc (mk_leg ''ENTRY'' ''2024-01-03'' 100) = Some 2
   \<and> leg_position sample_libs daily5_utc (mk_leg ''ENTRY'' ''2024-01-03T00:00:00+00:00'' 100)
       = Some 2"
  by (simp add: generate_chart_index_fails leg_position_def leg_date_def mk_leg_def
      sample_libs_def sample_Timestamp_def sample_get_indexer_def UTC_def bars5_def bar_def
      day_def del: sample_date)

subsection \<open>Title\<close>

lemma generate_chart_title:
  assumes "generate_chart L ticker data legs entry_price exit_price direction interval = Inr fig"
  shows "title fig = ticker @ '' - '' @ (if interval = ''1d'' then ''Daily''
                                        else if interval = ''1h'' then ''Hourly''
                                        else if interval = ''5m'' then ''5 Min'' else interval)"
proof -
  have ne: "rows data \<noteq> []"
    using assms by (auto simp: generate_chart_def empty_def)
  show ?thesis
    using assms generate_chart_Inr [OF ne, of L ticker legs entry_price exit_price direction
        interval]
    by (auto simp: interval_labels_def)
qed

text \<open>The handler of api/chart-image/index.py never answers with a chart.\<close>

lemma do_GET_fails:
  "isl (do_GET L ticker interval from_date to_date entry_price exit_price direction legs)"
proof (cases "fetch_data L ticker from_date to_date interval")
  case (Inl e)
  then show ?thesis by (simp add: do_GET_def)
next
  case (Inr data)
  then show ?thesis
    by (simp add: do_GET_def generate_chart_index_def create_custom_style_index_fails)
qed

text \<open>
  C9: the chart title is \<open>ticker - label\<close> with the label of the requested interval (1d
  Daily, 1h Hourly, 5m 5 Min). Asked for AAPL at the interval 1h,
  scripts/chart-server.py titles the chart \<open>AAPL - Hourly\<close>; the handler of
  api/chart-image/index.py answers with the \<^verbatim>\<open>KeyError\<close> of the style when the query has
  a \<^verbatim>\<open>from\<close>, and with an \<^verbatim>\<open>AttributeError\<close> when it has none, and sets no title.
\<close>

theorem C9_index_no_title:
  "do_GET sample_libs ''AAPL'' ''1h'' (Some ''2024-01-01'') None 100 None ''LONG'' []
     = Inl (KeyError ''Unrecognized kwarg=gridwidth'')
   \<and> do_GET sample_libs ''AAPL'' ''1h'' None None 100 None ''LONG'' []
     = Inl (AttributeError ''replace'')
   \<and> (\<exists>fig. generate_chart sample_libs ''AAPL'' daily5 [] 100 None ''LONG'' ''1h'' = Inr fig
      \<and> title fig = ''AAPL - Hourly'')"
proof -
  have f: "fetch_data sample_libs ''AAPL'' (Some ''2024-01-01'') None ''1h'' = Inr daily5"
    by (simp add: fetch_data_def replace_Z_def sample_libs_def Let_def)
  have g: "fetch_data sample_libs ''AAPL'' None None ''1h'' = Inl (AttributeError ''replace'')"
    by (simp add: fetch_data_def)
  show ?thesis
    by (simp add: do_GET_def f g generate_chart_index_fails generate_chart_Inr
        interval_labels_def)
qed

end
